theory Spec2Isabelle
  imports Main
begin

section \<open>The collaborators of the flag definitions\<close>

text \<open>
  The flags of sf-plugins-core are glue around the SDK: a message catalogue, a
  configuration aggregator, the session factory \<^verbatim>\<open>Org.create\<close>, an org handle and a
  warning sink. The SDK is not part of the repository, so whatever the code only
  calls is a field of the record \<open>sdk\<close> below and every theorem holds for any
  value of it. Following the external interfaces the flags rely on, the session
  factory either produces a handle or fails; the configuration lookups, the
  dev-hub test, the username getter and the warning sink always return.
\<close>

subsection \<open>Messages and errors\<close>

text \<open>
  A message of the catalogue is a key with positional tokens
  (\<^verbatim>\<open>messages.getMessage(key, tokens)\<close>, \<^verbatim>\<open>messages.createError(key, tokens)\<close>).
  A token is a string, a number or \<^verbatim>\<open>undefined\<close>.
\<close>

datatype token = Str string | Num int | Undefined

datatype message = Message string "token list"

text \<open>
  What a flag can throw: an error created from the catalogue, or whatever the
  session factory threw, carried unchanged (\<open>'x\<close> is the SDK's failure type).
\<close>

datatype 'x error = SfError string "token list" | Foreign 'x

definition createError :: "string \<Rightarrow> token list \<Rightarrow> 'x error" where
  "createError key tokens = SfError key tokens"

definition getMessage :: "string \<Rightarrow> token list \<Rightarrow> message" where
  "getMessage key tokens = Message key tokens"

subsection \<open>JavaScript values\<close>

text \<open>
  A value of type \<^verbatim>\<open>string | undefined\<close> is a \<open>string option\<close>. The code tests
  such values in two different ways: \<^verbatim>\<open>!x\<close> holds for \<^verbatim>\<open>undefined\<close> and for the
  empty string, while \<^verbatim>\<open>x ?? y\<close> replaces \<^verbatim>\<open>undefined\<close> only.
\<close>

definition falsy :: "string option \<Rightarrow> bool" where
  "falsy x = (case x of None \<Rightarrow> True | Some s \<Rightarrow> s = [])"

definition nullish :: "string option \<Rightarrow> string option \<Rightarrow> string option" where
  "nullish x y = (case x of Some s \<Rightarrow> Some s | None \<Rightarrow> y)"

definition tokenOf :: "string option \<Rightarrow> token" where
  "tokenOf x = (case x of Some s \<Rightarrow> Str s | None \<Rightarrow> Undefined)"

subsection \<open>Org handles and the SDK\<close>

text \<open>
  An org handle answers \<^verbatim>\<open>getUsername()\<close> (a string or \<^verbatim>\<open>undefined\<close>) and
  \<^verbatim>\<open>determineIfDevHubOrg()\<close>.
\<close>

record org =
  getUsername :: "string option"
  determineIfDevHubOrg :: bool

text \<open>
  \<open>orgCreate a\<close> is \<^verbatim>\<open>Org.create({ aliasOrUsername: a })\<close>: \<open>Inl e\<close> when it throws
  \<open>e\<close>. \<open>targetDevHub\<close> and \<open>orgApiVersion\<close> are the values the configuration
  aggregator holds for \<^verbatim>\<open>TARGET_DEV_HUB\<close> and \<^verbatim>\<open>ORG_API_VERSION\<close> (\<open>None\<close> when
  \<^verbatim>\<open>getInfo(..)?.value\<close> is \<^verbatim>\<open>undefined\<close>). \<open>validateApiVersion\<close> is the format
  check \<^verbatim>\<open>sfdc.validateApiVersion\<close>.
\<close>

record 'x sdk =
  orgCreate :: "string option \<Rightarrow> 'x + org"
  targetDevHub :: "string option"
  orgApiVersion :: "string option"
  validateApiVersion :: "string \<Rightarrow> bool"

section \<open>orgFlags.ts\<close>

text \<open>
  \<^verbatim>\<open>maybeGetOrg\<close>: the handle, or \<^verbatim>\<open>undefined\<close> when creation threw and
  \<^verbatim>\<open>!input\<close>; otherwise the exception is thrown again.
\<close>

definition maybeGetOrg :: "'x sdk \<Rightarrow> string option \<Rightarrow> 'x error + org option" where
  "maybeGetOrg s input =
     (case orgCreate s input of
        Inr o' \<Rightarrow> Inr (Some o')
      | Inl e \<Rightarrow> if falsy input then Inr None else Inl (Foreign e))"

definition ensureDevHub :: "org \<Rightarrow> string option \<Rightarrow> 'x error + org" where
  "ensureDevHub o' aliasOrUsername =
     (if determineIfDevHubOrg o' then Inr o'
      else Inl (createError ''errors.NotADevHub''
                  [tokenOf (nullish aliasOrUsername (getUsername o'))]))"

definition getDefaultHub :: "'x sdk \<Rightarrow> bool \<Rightarrow> 'x error + string option" where
  "getDefaultHub s throwIfNotFound =
     (let aliasOrUsername = targetDevHub s
      in if throwIfNotFound \<and> falsy aliasOrUsername
         then Inl (createError ''errors.NoDefaultDevHub'' [])
         else Inr aliasOrUsername)"

text \<open>
  \<^verbatim>\<open>input ?? (await getDefaultHub(b))\<close>: the default is looked up only when the
  input is \<^verbatim>\<open>undefined\<close>.
\<close>

definition inputOrDefaultHub :: "'x sdk \<Rightarrow> string option \<Rightarrow> bool \<Rightarrow> 'x error + string option" where
  "inputOrDefaultHub s input throwIfNotFound =
     (case input of Some a \<Rightarrow> Inr (Some a) | None \<Rightarrow> getDefaultHub s throwIfNotFound)"

definition maybeGetHub :: "'x sdk \<Rightarrow> string option \<Rightarrow> 'x error + org option" where
  "maybeGetHub s input =
     (case inputOrDefaultHub s input False of
        Inl e \<Rightarrow> Inl e
      | Inr a \<Rightarrow>
          (case maybeGetOrg s a of
             Inl e \<Rightarrow> Inl e
           | Inr None \<Rightarrow> Inr None
           | Inr (Some o') \<Rightarrow>
               (case ensureDevHub o' (nullish input (getUsername o')) of
                  Inl e \<Rightarrow> Inl e
                | Inr h \<Rightarrow> Inr (Some h))))"

definition getOrgOrThrow :: "'x sdk \<Rightarrow> string option \<Rightarrow> 'x error + org" where
  "getOrgOrThrow s input =
     (case maybeGetOrg s input of
        Inl e \<Rightarrow> Inl e
      | Inr None \<Rightarrow> Inl (createError ''errors.NoDefaultEnv'' [])
      | Inr (Some o') \<Rightarrow> Inr o')"

definition getHubOrThrow :: "'x sdk \<Rightarrow> string option \<Rightarrow> 'x error + org" where
  "getHubOrThrow s aliasOrUsername =
     (case inputOrDefaultHub s aliasOrUsername True of
        Inl e \<Rightarrow> Inl e
      | Inr resolved \<Rightarrow>
          (case orgCreate s resolved of
             Inl e \<Rightarrow> Inl (Foreign e)
           | Inr o' \<Rightarrow> ensureDevHub o' resolved))"

text \<open>The \<^verbatim>\<open>parse\<close> and \<^verbatim>\<open>default\<close> callables of the four flags.\<close>

definition optionalOrgFlag_parse :: "'x sdk \<Rightarrow> string option \<Rightarrow> 'x error + org option" where
  "optionalOrgFlag_parse s input = maybeGetOrg s input"

definition optionalOrgFlag_default :: "'x sdk \<Rightarrow> 'x error + org option" where
  "optionalOrgFlag_default s = maybeGetOrg s None"

definition requiredOrgFlag_parse :: "'x sdk \<Rightarrow> string option \<Rightarrow> 'x error + org" where
  "requiredOrgFlag_parse s input = getOrgOrThrow s input"

definition requiredOrgFlag_default :: "'x sdk \<Rightarrow> 'x error + org" where
  "requiredOrgFlag_default s = getOrgOrThrow s None"

definition requiredHubFlag_parse :: "'x sdk \<Rightarrow> string option \<Rightarrow> 'x error + org" where
  "requiredHubFlag_parse s input = getHubOrThrow s input"

definition requiredHubFlag_default :: "'x sdk \<Rightarrow> 'x error + org" where
  "requiredHubFlag_default s = getHubOrThrow s None"

definition optionalHubFlag_parse :: "'x sdk \<Rightarrow> string option \<Rightarrow> 'x error + org option" where
  "optionalHubFlag_parse s input = maybeGetHub s input"

definition optionalHubFlag_default :: "'x sdk \<Rightarrow> 'x error + org option" where
  "optionalHubFlag_default s = maybeGetHub s None"

section \<open>The API version flag\<close>

text \<open>Versions below \<open>minValidApiVersion\<close> are retired; \<open>maxDeprecated\<close> and all
  un-retired versions below it are deprecated.\<close>

definition minValidApiVersion :: int where
  "minValidApiVersion = 21"

definition maxDeprecated :: int where
  "maxDeprecated = 30"

definition maxDeprecatedUrl :: string where
  "maxDeprecatedUrl = ''https://help.salesforce.com/s/articleView?id=000354473&type=1;''"

subsection \<open>\<^verbatim>\<open>parseInt(input, 10)\<close>\<close>

text \<open>
  The built-in skips leading white space, reads an optional sign and then the
  longest run of decimal digits; without a digit the result is \<^verbatim>\<open>NaN\<close>, which is
  \<open>None\<close> here. Strings are byte strings, so the white space skipped is the
  ASCII part of the language's white space (tab, line feed, vertical tab, form
  feed, carriage return, space). The result is an \<open>int\<close>: the comparisons of
  \<^verbatim>\<open>validate\<close> against 21 and 30 come out the same on the exact integer and on
  the double the language rounds it to.
\<close>

definition isWhiteSpace :: "char \<Rightarrow> bool" where
  "isWhiteSpace c = (c \<in> set [CHR 0x09, CHR 0x0A, CHR 0x0B, CHR 0x0C, CHR 0x0D, CHR 0x20])"

definition isDigit :: "char \<Rightarrow> bool" where
  "isDigit c = (c \<in> set ''0123456789'')"

definition digitValue :: "char \<Rightarrow> int" where
  "digitValue c = int (of_char c) - 48"

fun digitsToInt :: "int \<Rightarrow> string \<Rightarrow> int" where
  "digitsToInt acc [] = acc"
| "digitsToInt acc (c # cs) = digitsToInt (acc * 10 + digitValue c) cs"

definition parseInt :: "string \<Rightarrow> int option" where
  "parseInt str =
     (let S = dropWhile isWhiteSpace str;
          sign = (if S \<noteq> [] \<and> hd S = CHR ''-'' then - 1 else 1);
          S' = (if S \<noteq> [] \<and> (hd S = CHR ''+'' \<or> hd S = CHR ''-'') then tl S else S);
          Z = takeWhile isDigit S'
      in if Z = [] then None else Some (sign * digitsToInt 0 Z))"

text \<open>\<^verbatim>\<open>x < n\<close> and \<^verbatim>\<open>x <= n\<close> on numbers: both are false when \<open>x\<close> is \<^verbatim>\<open>NaN\<close>.\<close>

definition numLess :: "int option \<Rightarrow> int \<Rightarrow> bool" where
  "numLess x n = (case x of None \<Rightarrow> False | Some v \<Rightarrow> v < n)"

definition numLessEq :: "int option \<Rightarrow> int \<Rightarrow> bool" where
  "numLessEq x n = (case x of None \<Rightarrow> False | Some v \<Rightarrow> v \<le> n)"

subsection \<open>The warning sink\<close>

text \<open>
  \<^verbatim>\<open>Lifecycle.getInstance()\<close> is a global sink. The model passes it along as the
  list of the warnings emitted so far, oldest first; \<^verbatim>\<open>emitWarning\<close> appends.
\<close>

type_synonym lifecycle = "message list"

definition emitWarning :: "message \<Rightarrow> lifecycle \<Rightarrow> lifecycle" where
  "emitWarning w l = l @ [w]"

subsection \<open>\<^verbatim>\<open>validate\<close> and \<^verbatim>\<open>getDefaultFromConfig\<close>\<close>

definition validate :: "'x sdk \<Rightarrow> string \<Rightarrow> lifecycle \<Rightarrow> ('x error + string) \<times> lifecycle" where
  "validate s input l =
     (if \<not> validateApiVersion s input
      then (Inl (createError ''errors.InvalidApiVersion'' [Str input]), l)
      else
        let requestedVersion = parseInt input
        in if numLess requestedVersion minValidApiVersion
           then (Inl (createError ''errors.RetiredApiVersion'' [Num minValidApiVersion]), l)
           else if numLessEq requestedVersion maxDeprecated
           then (Inr input,
                 emitWarning (getMessage ''flags.apiVersion.warning.deprecated''
                                [Num maxDeprecated, Str maxDeprecatedUrl]) l)
           else (Inr input, l))"

text \<open>
  \<^verbatim>\<open>getDefaultFromConfig\<close> returns \<^verbatim>\<open>undefined\<close> (\<open>Inr None\<close>) when the configured
  value is falsy.
\<close>

definition getDefaultFromConfig ::
  "'x sdk \<Rightarrow> lifecycle \<Rightarrow> ('x error + string option) \<times> lifecycle" where
  "getDefaultFromConfig s l =
     (case orgApiVersion s of
        None \<Rightarrow> (Inr None, l)
      | Some apiVersionFromConfig \<Rightarrow>
          if apiVersionFromConfig = [] then (Inr None, l)
          else
            (case validate s apiVersionFromConfig
                    (emitWarning (getMessage ''flags.apiVersion.overrideWarning''
                                    [Str apiVersionFromConfig]) l) of
               (Inl e, l') \<Rightarrow> (Inl e, l')
             | (Inr v, l') \<Rightarrow> (Inr (Some v), l')))"

definition orgApiVersionFlag_parse ::
  "'x sdk \<Rightarrow> string \<Rightarrow> lifecycle \<Rightarrow> ('x error + string) \<times> lifecycle" where
  "orgApiVersionFlag_parse s input l = validate s input l"

definition orgApiVersionFlag_default ::
  "'x sdk \<Rightarrow> lifecycle \<Rightarrow> ('x error + string option) \<times> lifecycle" where
  "orgApiVersionFlag_default s l = getDefaultFromConfig s l"

section \<open>A sample SDK\<close>

text \<open>
  One concrete SDK for the examples: two authorised orgs, the alias \<open>hub\<close> (a
  dev hub) and the alias \<open>scratch\<close> (not a dev hub); every other identifier,
  and the absent one, is rejected by the session factory.
\<close>

definition hubOrg :: org where
  "hubOrg = \<lparr>getUsername = Some ''admin@hub.example'', determineIfDevHubOrg = True\<rparr>"

definition scratchOrg :: org where
  "scratchOrg = \<lparr>getUsername = Some ''dev@scratch.example'', determineIfDevHubOrg = False\<rparr>"

definition sampleOrgCreate :: "string option \<Rightarrow> string + org" where
  "sampleOrgCreate a =
     (if a = Some ''hub'' then Inr hubOrg
      else if a = Some ''scratch'' then Inr scratchOrg
      else Inl ''NamedOrgNotFound'')"

text \<open>The same session factory on a machine whose default org is \<open>scratch\<close>.\<close>

definition targetOrgCreate :: "string option \<Rightarrow> string + org" where
  "targetOrgCreate a = (if a = None then Inr scratchOrg else sampleOrgCreate a)"

text \<open>
  The sample format check accepts two digits, the first not zero, followed by
  \<open>.0\<close>, as in \<open>45.0\<close>.
\<close>

definition sampleValidateApiVersion :: "string \<Rightarrow> bool" where
  "sampleValidateApiVersion v =
     (case v of
        [a, b, c, d] \<Rightarrow>
          a \<in> set ''123456789'' \<and> b \<in> set ''0123456789'' \<and> c = CHR ''.'' \<and> d = CHR ''0''
      | _ \<Rightarrow> False)"

definition sampleSdk :: "string sdk" where
  "sampleSdk = \<lparr>orgCreate = sampleOrgCreate, targetDevHub = None,
                 orgApiVersion = None, validateApiVersion = sampleValidateApiVersion\<rparr>"

section \<open>Properties of the org flags\<close>

lemmas orgFlags_defs =
  maybeGetOrg_def ensureDevHub_def getDefaultHub_def inputOrDefaultHub_def
  maybeGetHub_def getOrgOrThrow_def getHubOrThrow_def
  optionalOrgFlag_parse_def optionalOrgFlag_default_def
  requiredOrgFlag_parse_def requiredOrgFlag_default_def
  requiredHubFlag_parse_def requiredHubFlag_default_def
  optionalHubFlag_parse_def optionalHubFlag_default_def

lemmas sample_defs =
  sampleSdk_def sampleOrgCreate_def hubOrg_def scratchOrg_def

text \<open>Every \<^verbatim>\<open>default\<close> callable is the \<^verbatim>\<open>parse\<close> of the absent input.\<close>

lemma default_is_parse_of_absent:
  "optionalOrgFlag_default s = optionalOrgFlag_parse s None"
  "requiredOrgFlag_default s = requiredOrgFlag_parse s None"
  "requiredHubFlag_default s = requiredHubFlag_parse s None"
  "optionalHubFlag_default s = optionalHubFlag_parse s None"
  by (simp_all add: orgFlags_defs)

lemma falsy_simps:
  "falsy None" "falsy (Some [])" "\<not> falsy (Some (c # cs))"
  by (simp_all add: falsy_def)

lemma nullish_simps:
  "nullish None y = y" "nullish (Some a) y = Some a"
  by (simp_all add: nullish_def)

text \<open>
  What \<^verbatim>\<open>maybeGetOrg\<close> does with a failure of the session factory: the one
  test \<^verbatim>\<open>!input\<close> decides.
\<close>

lemma maybeGetOrg_failure:
  "orgCreate s input = Inl e \<Longrightarrow>
     maybeGetOrg s input = (if falsy input then Inr None else Inl (Foreign e))"
  by (simp add: maybeGetOrg_def)

lemma maybeGetOrg_success:
  "orgCreate s input = Inr h \<Longrightarrow> maybeGetOrg s input = Inr (Some h)"
  by (simp add: maybeGetOrg_def)

lemma getOrgOrThrow_returns:
  "getOrgOrThrow s a = Inr h \<Longrightarrow> orgCreate s a = Inr h"
  by (cases "orgCreate s a") (simp_all add: getOrgOrThrow_def maybeGetOrg_def split: if_splits)

text \<open>
  The identifier the hub variants hand to the session factory:
  \<^verbatim>\<open>input ?? default\<close>. The required variant throws before it gets there when
  the input is absent and the configured default is absent or empty.
\<close>

lemma inputOrDefaultHub_optional:
  "inputOrDefaultHub s input False = Inr (nullish input (targetDevHub s))"
  by (simp add: inputOrDefaultHub_def getDefaultHub_def nullish_def split: option.splits)

lemma inputOrDefaultHub_required:
  "inputOrDefaultHub s input True =
     (if input = None \<and> falsy (targetDevHub s)
      then Inl (createError ''errors.NoDefaultDevHub'' [])
      else Inr (nullish input (targetDevHub s)))"
  by (simp add: inputOrDefaultHub_def getDefaultHub_def nullish_def split: option.splits)

text \<open>
  C1. Claimed: for the optional variants an unresolvable target identifier,
  whether explicitly supplied, taken from a configured default or absent, makes
  parse/default resolve to no value, never to a thrown failure. The code throws
  the creation failure for a non-empty identifier: below, \<^verbatim>\<open>optionalOrgFlag\<close>
  parsing the unknown alias \<open>ghost\<close>, and \<^verbatim>\<open>optionalHubFlag\<close> defaulting to a
  configured dev hub \<open>ghost\<close>, both throw what \<^verbatim>\<open>Org.create\<close> threw.
\<close>

theorem optional_nonempty_identifier_throws:
  "orgCreate sampleSdk (Some ''ghost'') = Inl ''NamedOrgNotFound'' \<and>
   optionalOrgFlag_parse sampleSdk (Some ''ghost'') = Inl (Foreign ''NamedOrgNotFound'') \<and>
   optionalOrgFlag_parse sampleSdk (Some ''ghost'') \<noteq> Inr None \<and>
   optionalHubFlag_default (sampleSdk\<lparr>targetDevHub := Some ''ghost''\<rparr>)
     = Inl (Foreign ''NamedOrgNotFound'') \<and>
   optionalHubFlag_parse sampleSdk (Some ''ghost'') = Inl (Foreign ''NamedOrgNotFound'')"
  by (simp add: orgFlags_defs sample_defs falsy_def nullish_def)

text \<open>
  C1, as amended. For the optional variants an unresolvable target makes
  parse/default resolve to no value, never to a thrown failure, whenever the
  identifier handed to session creation is absent or the empty string: always
  for the default of \<^verbatim>\<open>optionalOrgFlag\<close> (which never throws at all, and
  yields no value whenever session creation fails), for its parse when the
  input is absent or empty, and for \<^verbatim>\<open>optionalHubFlag\<close> when
  \<^verbatim>\<open>input ?? configured dev hub\<close> is absent or empty.
\<close>

theorem optional_unresolvable_no_value:
  "optionalOrgFlag_default s \<noteq> Inl err \<and>
   (orgCreate s None = Inl e \<longrightarrow> optionalOrgFlag_default s = Inr None) \<and>
   (orgCreate s input = Inl e \<and> falsy input \<longrightarrow> optionalOrgFlag_parse s input = Inr None) \<and>
   (orgCreate s (nullish input (targetDevHub s)) = Inl e \<and> falsy (nullish input (targetDevHub s))
      \<longrightarrow> optionalHubFlag_parse s input = Inr None) \<and>
   (orgCreate s (targetDevHub s) = Inl e \<and> falsy (targetDevHub s)
      \<longrightarrow> optionalHubFlag_default s = Inr None)"
proof (intro conjI impI)
  show "optionalOrgFlag_default s \<noteq> Inl err"
    by (simp add: optionalOrgFlag_default_def maybeGetOrg_def falsy_simps split: sum.splits)
next
  assume "orgCreate s None = Inl e"
  then show "optionalOrgFlag_default s = Inr None"
    by (simp add: optionalOrgFlag_default_def maybeGetOrg_failure falsy_simps)
next
  assume "orgCreate s input = Inl e \<and> falsy input"
  then show "optionalOrgFlag_parse s input = Inr None"
    by (simp add: optionalOrgFlag_parse_def maybeGetOrg_failure)
next
  assume "orgCreate s (nullish input (targetDevHub s)) = Inl e
      \<and> falsy (nullish input (targetDevHub s))"
  then show "optionalHubFlag_parse s input = Inr None"
    by (simp add: optionalHubFlag_parse_def maybeGetHub_def inputOrDefaultHub_optional
        maybeGetOrg_failure)
next
  assume "orgCreate s (targetDevHub s) = Inl e \<and> falsy (targetDevHub s)"
  then show "optionalHubFlag_default s = Inr None"
    by (simp add: optionalHubFlag_default_def maybeGetHub_def inputOrDefaultHub_optional
        maybeGetOrg_failure nullish_simps)
qed

theorem optional_unresolvable_no_value_witness:
  "orgCreate sampleSdk None = Inl ''NamedOrgNotFound'' \<and>
   orgCreate sampleSdk (Some []) = Inl ''NamedOrgNotFound'' \<and>
   falsy None \<and> falsy (Some []) \<and>
   targetDevHub sampleSdk = None \<and>
   optionalOrgFlag_default sampleSdk = Inr None \<and>
   optionalOrgFlag_parse sampleSdk None = Inr None \<and>
   optionalOrgFlag_parse sampleSdk (Some []) = Inr None \<and>
   optionalHubFlag_parse sampleSdk None = Inr None \<and>
   optionalHubFlag_parse sampleSdk (Some []) = Inr None \<and>
   optionalHubFlag_default sampleSdk = Inr None \<and>
   optionalHubFlag_default (sampleSdk\<lparr>targetDevHub := Some []\<rparr>) = Inr None"
proof -
  let ?s = "sampleSdk\<lparr>targetDevHub := Some []\<rparr>"
  have c: "orgCreate sampleSdk None = Inl ''NamedOrgNotFound''"
    and c': "orgCreate sampleSdk (Some []) = Inl ''NamedOrgNotFound''"
    by (simp_all add: sample_defs)
  have d: "targetDevHub sampleSdk = None"
    by (simp add: sample_defs)
  have f: "falsy None" and f': "falsy (Some [])"
    by (simp_all add: falsy_def)
  have n: "nullish None (targetDevHub sampleSdk) = None"
    and n': "nullish (Some []) (targetDevHub sampleSdk) = Some []"
    by (simp_all add: nullish_def d)
  have hc: "orgCreate sampleSdk (nullish None (targetDevHub sampleSdk)) = Inl ''NamedOrgNotFound''"
    and hf: "falsy (nullish None (targetDevHub sampleSdk))"
    using c f n by simp_all
  have hc': "orgCreate sampleSdk (nullish (Some []) (targetDevHub sampleSdk))
      = Inl ''NamedOrgNotFound''"
    and hf': "falsy (nullish (Some []) (targetDevHub sampleSdk))"
    using c' f' n' by simp_all
  have dc: "orgCreate sampleSdk (targetDevHub sampleSdk) = Inl ''NamedOrgNotFound''"
    and df: "falsy (targetDevHub sampleSdk)"
    using c f d by simp_all
  have ec: "orgCreate ?s (targetDevHub ?s) = Inl ''NamedOrgNotFound''"
    and ef: "falsy (targetDevHub ?s)"
    by (simp_all add: sample_defs falsy_def)
  note absent = optional_unresolvable_no_value
    [of sampleSdk "Foreign ''NamedOrgNotFound''" "''NamedOrgNotFound''" None]
  note empty = optional_unresolvable_no_value
    [of sampleSdk "Foreign ''NamedOrgNotFound''" "''NamedOrgNotFound''" "Some []"]
  note emptyHub = optional_unresolvable_no_value
    [of ?s "Foreign ''NamedOrgNotFound''" "''NamedOrgNotFound''" None]
  have 1: "optionalOrgFlag_default sampleSdk = Inr None"
    using absent c by blast
  have 2: "optionalOrgFlag_parse sampleSdk None = Inr None"
    using absent c f by blast
  have 3: "optionalOrgFlag_parse sampleSdk (Some []) = Inr None"
    using empty c' f' by blast
  have 4: "optionalHubFlag_parse sampleSdk None = Inr None"
    using absent hc hf by blast
  have 5: "optionalHubFlag_parse sampleSdk (Some []) = Inr None"
    using empty hc' hf' by blast
  have 6: "optionalHubFlag_default sampleSdk = Inr None"
    using absent dc df by blast
  have 7: "optionalHubFlag_default ?s = Inr None"
    using emptyHub ec ef by blast
  show ?thesis
    using c c' f f' d 1 2 3 4 5 6 7 by blast
qed

text \<open>
  C2. Claimed: a failure thrown by \<^verbatim>\<open>Org.create\<close> is propagated verbatim exactly
  when the target identifier was explicitly supplied or the flag is a required
  variant, and is swallowed (no value) exactly when the target was optional and
  no identifier was supplied. Two resolutions of the code say otherwise: the
  required org flag without input replaces the creation failure by
  \<open>errors.NoDefaultEnv\<close>, and the optional hub flag without input throws the
  creation failure of the configured dev hub.
\<close>

theorem creation_failure_not_as_claimed:
  "orgCreate sampleSdk None = Inl ''NamedOrgNotFound'' \<and>
   requiredOrgFlag_default sampleSdk = Inl (createError ''errors.NoDefaultEnv'' []) \<and>
   requiredOrgFlag_default sampleSdk \<noteq> Inl (Foreign ''NamedOrgNotFound'') \<and>
   optionalHubFlag_parse (sampleSdk\<lparr>targetDevHub := Some ''ghost''\<rparr>) None
     = Inl (Foreign ''NamedOrgNotFound'') \<and>
   optionalHubFlag_parse (sampleSdk\<lparr>targetDevHub := Some ''ghost''\<rparr>) None \<noteq> Inr None"
  by (simp add: orgFlags_defs sample_defs falsy_def nullish_def createError_def)

text \<open>
  C2, as amended. For every org-flag resolution, parse and default alike (a
  default is the resolution of the absent input): when \<^verbatim>\<open>Org.create\<close> fails
  for the identifier handed to it (the input for the org flags,
  \<^verbatim>\<open>input ?? configured dev hub\<close> for the hub flags), the failure is propagated
  verbatim exactly when that identifier is a non-empty string, or the flag is
  the required hub flag; when the identifier is absent or empty, the optional
  flags swallow the failure and yield no value and the required org flag
  replaces it by \<open>errors.NoDefaultEnv\<close>. (The required hub flag reaches
  \<^verbatim>\<open>Org.create\<close> only with an input or a non-empty configured dev hub.)
\<close>

theorem creation_failure_propagation:
  "(orgCreate s input = Inl e \<longrightarrow>
      optionalOrgFlag_parse s input = (if falsy input then Inr None else Inl (Foreign e)) \<and>
      requiredOrgFlag_parse s input =
        (if falsy input then Inl (createError ''errors.NoDefaultEnv'' []) else Inl (Foreign e))) \<and>
   (orgCreate s (nullish input (targetDevHub s)) = Inl e \<longrightarrow>
      optionalHubFlag_parse s input =
        (if falsy (nullish input (targetDevHub s)) then Inr None else Inl (Foreign e))) \<and>
   (orgCreate s (nullish input (targetDevHub s)) = Inl e \<and>
      (input \<noteq> None \<or> \<not> falsy (targetDevHub s)) \<longrightarrow>
      requiredHubFlag_parse s input = Inl (Foreign e)) \<and>
   (orgCreate s None = Inl e \<longrightarrow>
      optionalOrgFlag_default s = Inr None \<and>
      requiredOrgFlag_default s = Inl (createError ''errors.NoDefaultEnv'' [])) \<and>
   (orgCreate s (targetDevHub s) = Inl e \<longrightarrow>
      optionalHubFlag_default s =
        (if falsy (targetDevHub s) then Inr None else Inl (Foreign e))) \<and>
   (orgCreate s (targetDevHub s) = Inl e \<and> \<not> falsy (targetDevHub s) \<longrightarrow>
      requiredHubFlag_default s = Inl (Foreign e))"
proof (intro conjI impI)
  assume "orgCreate s input = Inl e"
  then show "optionalOrgFlag_parse s input = (if falsy input then Inr None else Inl (Foreign e))"
    by (simp add: optionalOrgFlag_parse_def maybeGetOrg_failure)
next
  assume "orgCreate s input = Inl e"
  then show "requiredOrgFlag_parse s input =
      (if falsy input then Inl (createError ''errors.NoDefaultEnv'' []) else Inl (Foreign e))"
    by (simp add: requiredOrgFlag_parse_def getOrgOrThrow_def maybeGetOrg_failure)
next
  assume "orgCreate s (nullish input (targetDevHub s)) = Inl e"
  then show "optionalHubFlag_parse s input =
      (if falsy (nullish input (targetDevHub s)) then Inr None else Inl (Foreign e))"
    by (simp add: optionalHubFlag_parse_def maybeGetHub_def inputOrDefaultHub_optional
        maybeGetOrg_failure)
next
  assume "orgCreate s (nullish input (targetDevHub s)) = Inl e \<and>
      (input \<noteq> None \<or> \<not> falsy (targetDevHub s))"
  then show "requiredHubFlag_parse s input = Inl (Foreign e)"
    by (auto simp add: requiredHubFlag_parse_def getHubOrThrow_def inputOrDefaultHub_required)
next
  assume "orgCreate s None = Inl e"
  then show "optionalOrgFlag_default s = Inr None"
    by (simp add: optionalOrgFlag_default_def maybeGetOrg_failure falsy_simps)
next
  assume "orgCreate s None = Inl e"
  then show "requiredOrgFlag_default s = Inl (createError ''errors.NoDefaultEnv'' [])"
    by (simp add: requiredOrgFlag_default_def getOrgOrThrow_def maybeGetOrg_failure falsy_simps)
next
  assume "orgCreate s (targetDevHub s) = Inl e"
  then show "optionalHubFlag_default s =
      (if falsy (targetDevHub s) then Inr None else Inl (Foreign e))"
    by (simp add: optionalHubFlag_default_def maybeGetHub_def inputOrDefaultHub_optional
        maybeGetOrg_failure nullish_simps)
next
  assume "orgCreate s (targetDevHub s) = Inl e \<and> \<not> falsy (targetDevHub s)"
  then show "requiredHubFlag_default s = Inl (Foreign e)"
    by (simp add: requiredHubFlag_default_def getHubOrThrow_def inputOrDefaultHub_required
        nullish_simps)
qed

theorem creation_failure_propagation_witness:
  "orgCreate sampleSdk (Some ''ghost'') = Inl ''NamedOrgNotFound'' \<and>
   nullish (Some ''ghost'') (targetDevHub sampleSdk) = Some ''ghost'' \<and>
   optionalOrgFlag_parse sampleSdk (Some ''ghost'') = Inl (Foreign ''NamedOrgNotFound'') \<and>
   requiredOrgFlag_parse sampleSdk (Some ''ghost'') = Inl (Foreign ''NamedOrgNotFound'') \<and>
   optionalHubFlag_parse sampleSdk (Some ''ghost'') = Inl (Foreign ''NamedOrgNotFound'') \<and>
   requiredHubFlag_parse sampleSdk (Some ''ghost'') = Inl (Foreign ''NamedOrgNotFound'') \<and>
   orgCreate sampleSdk None = Inl ''NamedOrgNotFound'' \<and>
   nullish None (targetDevHub sampleSdk) = None \<and>
   optionalOrgFlag_parse sampleSdk None = Inr None \<and>
   requiredOrgFlag_parse sampleSdk None = Inl (createError ''errors.NoDefaultEnv'' []) \<and>
   optionalHubFlag_parse sampleSdk None = Inr None \<and>
   optionalOrgFlag_default sampleSdk = Inr None \<and>
   requiredOrgFlag_default sampleSdk = Inl (createError ''errors.NoDefaultEnv'' []) \<and>
   optionalHubFlag_default sampleSdk = Inr None \<and>
   targetDevHub (sampleSdk\<lparr>targetDevHub := Some ''ghost''\<rparr>) = Some ''ghost'' \<and>
   \<not> falsy (Some ''ghost'') \<and>
   optionalHubFlag_default (sampleSdk\<lparr>targetDevHub := Some ''ghost''\<rparr>)
     = Inl (Foreign ''NamedOrgNotFound'') \<and>
   requiredHubFlag_default (sampleSdk\<lparr>targetDevHub := Some ''ghost''\<rparr>)
     = Inl (Foreign ''NamedOrgNotFound'')"
proof -
  let ?g = "sampleSdk\<lparr>targetDevHub := Some ''ghost''\<rparr>"
  have c: "orgCreate sampleSdk (Some ''ghost'') = Inl ''NamedOrgNotFound''"
    and c': "orgCreate sampleSdk None = Inl ''NamedOrgNotFound''"
    by (simp_all add: sample_defs)
  have d: "targetDevHub sampleSdk = None" and dg: "targetDevHub ?g = Some ''ghost''"
    by (simp_all add: sample_defs)
  have n: "nullish (Some ''ghost'') (targetDevHub sampleSdk) = Some ''ghost''"
    and n': "nullish None (targetDevHub sampleSdk) = None"
    by (simp_all add: nullish_def d)
  have f: "falsy None" and nf: "\<not> falsy (Some ''ghost'')"
    by (simp_all add: falsy_def)
  have hc: "orgCreate sampleSdk (nullish (Some ''ghost'') (targetDevHub sampleSdk))
      = Inl ''NamedOrgNotFound''"
    and hnf: "\<not> falsy (nullish (Some ''ghost'') (targetDevHub sampleSdk))"
    using c n nf by simp_all
  have hc': "orgCreate sampleSdk (nullish None (targetDevHub sampleSdk)) = Inl ''NamedOrgNotFound''"
    and hf': "falsy (nullish None (targetDevHub sampleSdk))"
    using c' n' f by simp_all
  have dc: "orgCreate sampleSdk (targetDevHub sampleSdk) = Inl ''NamedOrgNotFound''"
    and df: "falsy (targetDevHub sampleSdk)"
    using c' d f by simp_all
  have gc: "orgCreate ?g (targetDevHub ?g) = Inl ''NamedOrgNotFound''"
    and gnf: "\<not> falsy (targetDevHub ?g)"
    by (simp_all add: sample_defs falsy_def)
  note named = creation_failure_propagation [of sampleSdk "Some ''ghost''" "''NamedOrgNotFound''"]
  note absent = creation_failure_propagation [of sampleSdk None "''NamedOrgNotFound''"]
  note hub = creation_failure_propagation [of ?g None "''NamedOrgNotFound''"]
  have 1: "optionalOrgFlag_parse sampleSdk (Some ''ghost'') = Inl (Foreign ''NamedOrgNotFound'')"
    and 2: "requiredOrgFlag_parse sampleSdk (Some ''ghost'') = Inl (Foreign ''NamedOrgNotFound'')"
    using named c nf by simp_all
  have 3: "optionalHubFlag_parse sampleSdk (Some ''ghost'') = Inl (Foreign ''NamedOrgNotFound'')"
    using named hc hnf by simp
  have 4: "requiredHubFlag_parse sampleSdk (Some ''ghost'') = Inl (Foreign ''NamedOrgNotFound'')"
    using named hc by blast
  have 5: "optionalOrgFlag_parse sampleSdk None = Inr None"
    and 6: "requiredOrgFlag_parse sampleSdk None = Inl (createError ''errors.NoDefaultEnv'' [])"
    using absent c' f by simp_all
  have 7: "optionalHubFlag_parse sampleSdk None = Inr None"
    using absent hc' hf' by simp
  have 8: "optionalOrgFlag_default sampleSdk = Inr None"
    and 9: "requiredOrgFlag_default sampleSdk = Inl (createError ''errors.NoDefaultEnv'' [])"
    using absent c' by blast+
  have 10: "optionalHubFlag_default sampleSdk = Inr None"
    using absent dc df by simp
  have 11: "optionalHubFlag_default ?g = Inl (Foreign ''NamedOrgNotFound'')"
    using hub gc gnf by simp
  have 12: "requiredHubFlag_default ?g = Inl (Foreign ''NamedOrgNotFound'')"
    using hub gc gnf by blast
  show ?thesis
    using c n 1 2 3 4 c' n' 5 6 7 8 9 10 dg nf 11 12 by blast
qed

text \<open>
  C3. Claimed: the required org flag fails with \<open>errors.NoDefaultEnv\<close> both when
  no identifier is available and when the targeted org cannot be found, and
  never yields no value. For an explicitly named org that cannot be found the
  code throws the creation failure itself, not \<open>errors.NoDefaultEnv\<close>.
\<close>

theorem required_org_named_target_not_NoDefaultEnv:
  "orgCreate sampleSdk (Some ''ghost'') = Inl ''NamedOrgNotFound'' \<and>
   requiredOrgFlag_parse sampleSdk (Some ''ghost'') = Inl (Foreign ''NamedOrgNotFound'') \<and>
   requiredOrgFlag_parse sampleSdk (Some ''ghost'')
     \<noteq> Inl (createError ''errors.NoDefaultEnv'' [])"
  by (simp add: orgFlags_defs sample_defs falsy_def createError_def)

text \<open>
  C3, as amended. For the required org flag, when session creation fails and
  the input is absent or empty (no default, or a default whose org cannot be
  found), resolution fails with \<open>errors.NoDefaultEnv\<close>; when it fails for a
  non-empty input, the creation failure itself is thrown. The failure is never
  converted to no value: whenever the flag returns, it returns the handle the
  session factory produced.
\<close>

theorem required_org_failure:
  "(orgCreate s None = Inl e \<longrightarrow>
      requiredOrgFlag_default s = Inl (createError ''errors.NoDefaultEnv'' [])) \<and>
   (orgCreate s input = Inl e \<and> falsy input \<longrightarrow>
      requiredOrgFlag_parse s input = Inl (createError ''errors.NoDefaultEnv'' [])) \<and>
   (orgCreate s input = Inl e \<and> \<not> falsy input \<longrightarrow>
      requiredOrgFlag_parse s input = Inl (Foreign e)) \<and>
   (requiredOrgFlag_parse s input = Inr h \<longrightarrow> orgCreate s input = Inr h) \<and>
   (requiredOrgFlag_default s = Inr h \<longrightarrow> orgCreate s None = Inr h)"
proof (intro conjI impI)
  assume "orgCreate s None = Inl e"
  then show "requiredOrgFlag_default s = Inl (createError ''errors.NoDefaultEnv'' [])"
    by (simp add: requiredOrgFlag_default_def getOrgOrThrow_def maybeGetOrg_failure falsy_simps)
next
  assume "orgCreate s input = Inl e \<and> falsy input"
  then show "requiredOrgFlag_parse s input = Inl (createError ''errors.NoDefaultEnv'' [])"
    by (simp add: requiredOrgFlag_parse_def getOrgOrThrow_def maybeGetOrg_failure)
next
  assume "orgCreate s input = Inl e \<and> \<not> falsy input"
  then show "requiredOrgFlag_parse s input = Inl (Foreign e)"
    by (simp add: requiredOrgFlag_parse_def getOrgOrThrow_def maybeGetOrg_failure)
next
  assume "requiredOrgFlag_parse s input = Inr h"
  then show "orgCreate s input = Inr h"
    by (simp add: requiredOrgFlag_parse_def getOrgOrThrow_returns)
next
  assume "requiredOrgFlag_default s = Inr h"
  then show "orgCreate s None = Inr h"
    by (simp add: requiredOrgFlag_default_def getOrgOrThrow_returns)
qed

theorem required_org_failure_witness:
  "orgCreate sampleSdk None = Inl ''NamedOrgNotFound'' \<and> falsy None \<and>
   requiredOrgFlag_default sampleSdk = Inl (createError ''errors.NoDefaultEnv'' []) \<and>
   requiredOrgFlag_parse sampleSdk None = Inl (createError ''errors.NoDefaultEnv'' []) \<and>
   orgCreate sampleSdk (Some ''nobody'') = Inl ''NamedOrgNotFound'' \<and>
   \<not> falsy (Some ''nobody'') \<and>
   requiredOrgFlag_parse sampleSdk (Some ''nobody'') = Inl (Foreign ''NamedOrgNotFound'') \<and>
   requiredOrgFlag_parse sampleSdk (Some ''scratch'') = Inr scratchOrg \<and>
   orgCreate sampleSdk (Some ''scratch'') = Inr scratchOrg \<and>
   requiredOrgFlag_default (sampleSdk\<lparr>orgCreate := targetOrgCreate\<rparr>) = Inr scratchOrg \<and>
   orgCreate (sampleSdk\<lparr>orgCreate := targetOrgCreate\<rparr>) None = Inr scratchOrg"
proof -
  have c: "orgCreate sampleSdk None = Inl ''NamedOrgNotFound''"
    and c': "orgCreate sampleSdk (Some ''nobody'') = Inl ''NamedOrgNotFound''"
    by (simp_all add: sample_defs)
  have f: "falsy None" and nf: "\<not> falsy (Some ''nobody'')"
    by (simp_all add: falsy_def)
  have p: "requiredOrgFlag_parse sampleSdk (Some ''scratch'') = Inr scratchOrg"
    by (simp add: requiredOrgFlag_parse_def getOrgOrThrow_def maybeGetOrg_def sample_defs)
  have d: "requiredOrgFlag_default (sampleSdk\<lparr>orgCreate := targetOrgCreate\<rparr>) = Inr scratchOrg"
    by (simp add: requiredOrgFlag_default_def getOrgOrThrow_def maybeGetOrg_def
        targetOrgCreate_def)
  note absent = required_org_failure [of sampleSdk "''NamedOrgNotFound''" None scratchOrg]
  note named = required_org_failure [of sampleSdk "''NamedOrgNotFound''" "Some ''nobody''" scratchOrg]
  note found = required_org_failure [of sampleSdk "''NamedOrgNotFound''" "Some ''scratch''" scratchOrg]
  note dflt = required_org_failure
    [of "sampleSdk\<lparr>orgCreate := targetOrgCreate\<rparr>" "''NamedOrgNotFound''" None scratchOrg]
  have 1: "requiredOrgFlag_default sampleSdk = Inl (createError ''errors.NoDefaultEnv'' [])"
    using absent c by blast
  have 2: "requiredOrgFlag_parse sampleSdk None = Inl (createError ''errors.NoDefaultEnv'' [])"
    using absent c f by blast
  have 3: "requiredOrgFlag_parse sampleSdk (Some ''nobody'') = Inl (Foreign ''NamedOrgNotFound'')"
    using named c' nf by blast
  have 4: "orgCreate sampleSdk (Some ''scratch'') = Inr scratchOrg"
    using found p by blast
  have 5: "orgCreate (sampleSdk\<lparr>orgCreate := targetOrgCreate\<rparr>) None = Inr scratchOrg"
    using dflt d by blast
  show ?thesis
    using c f 1 2 c' nf 3 p 4 d 5 by blast
qed

text \<open>
  C4. For the required hub flag, when no explicit input is given and no dev-hub
  default is configured (the configured value is absent or empty), resolution
  fails with \<open>errors.NoDefaultDevHub\<close>; when an identifier is available (an
  input, or else a non-empty configured dev hub) but session creation for it
  fails, that creation failure is propagated unchanged.
\<close>

theorem required_hub_failure:
  "(falsy (targetDevHub s) \<longrightarrow>
      requiredHubFlag_parse s None = Inl (createError ''errors.NoDefaultDevHub'' []) \<and>
      requiredHubFlag_default s = Inl (createError ''errors.NoDefaultDevHub'' [])) \<and>
   (orgCreate s (Some a) = Inl e \<longrightarrow> requiredHubFlag_parse s (Some a) = Inl (Foreign e)) \<and>
   (\<not> falsy (targetDevHub s) \<and> orgCreate s (targetDevHub s) = Inl e \<longrightarrow>
      requiredHubFlag_parse s None = Inl (Foreign e) \<and>
      requiredHubFlag_default s = Inl (Foreign e))"
proof (intro conjI impI)
  assume "falsy (targetDevHub s)"
  then show "requiredHubFlag_parse s None = Inl (createError ''errors.NoDefaultDevHub'' [])"
    by (simp add: requiredHubFlag_parse_def getHubOrThrow_def inputOrDefaultHub_required)
next
  assume "falsy (targetDevHub s)"
  then show "requiredHubFlag_default s = Inl (createError ''errors.NoDefaultDevHub'' [])"
    by (simp add: requiredHubFlag_default_def getHubOrThrow_def inputOrDefaultHub_required)
next
  assume "orgCreate s (Some a) = Inl e"
  then show "requiredHubFlag_parse s (Some a) = Inl (Foreign e)"
    by (simp add: requiredHubFlag_parse_def getHubOrThrow_def inputOrDefaultHub_required
        nullish_simps)
next
  assume "\<not> falsy (targetDevHub s) \<and> orgCreate s (targetDevHub s) = Inl e"
  then show "requiredHubFlag_parse s None = Inl (Foreign e)"
    by (simp add: requiredHubFlag_parse_def getHubOrThrow_def inputOrDefaultHub_required
        nullish_simps)
next
  assume "\<not> falsy (targetDevHub s) \<and> orgCreate s (targetDevHub s) = Inl e"
  then show "requiredHubFlag_default s = Inl (Foreign e)"
    by (simp add: requiredHubFlag_default_def getHubOrThrow_def inputOrDefaultHub_required
        nullish_simps)
qed

theorem required_hub_failure_witness:
  "falsy (targetDevHub sampleSdk) \<and>
   requiredHubFlag_parse sampleSdk None = Inl (createError ''errors.NoDefaultDevHub'' []) \<and>
   requiredHubFlag_default sampleSdk = Inl (createError ''errors.NoDefaultDevHub'' []) \<and>
   orgCreate sampleSdk (Some ''ghost'') = Inl ''NamedOrgNotFound'' \<and>
   requiredHubFlag_parse sampleSdk (Some ''ghost'') = Inl (Foreign ''NamedOrgNotFound'') \<and>
   \<not> falsy (targetDevHub (sampleSdk\<lparr>targetDevHub := Some ''ghost''\<rparr>)) \<and>
   orgCreate (sampleSdk\<lparr>targetDevHub := Some ''ghost''\<rparr>)
     (targetDevHub (sampleSdk\<lparr>targetDevHub := Some ''ghost''\<rparr>)) = Inl ''NamedOrgNotFound'' \<and>
   requiredHubFlag_parse (sampleSdk\<lparr>targetDevHub := Some ''ghost''\<rparr>) None
     = Inl (Foreign ''NamedOrgNotFound'') \<and>
   requiredHubFlag_default (sampleSdk\<lparr>targetDevHub := Some ''ghost''\<rparr>)
     = Inl (Foreign ''NamedOrgNotFound'')"
proof -
  have f: "falsy (targetDevHub sampleSdk)"
    by (simp add: sample_defs falsy_def)
  have c: "orgCreate sampleSdk (Some ''ghost'') = Inl ''NamedOrgNotFound''"
    by (simp add: sample_defs)
  have nf: "\<not> falsy (targetDevHub (sampleSdk\<lparr>targetDevHub := Some ''ghost''\<rparr>))"
    by (simp add: falsy_def)
  have c': "orgCreate (sampleSdk\<lparr>targetDevHub := Some ''ghost''\<rparr>)
      (targetDevHub (sampleSdk\<lparr>targetDevHub := Some ''ghost''\<rparr>)) = Inl ''NamedOrgNotFound''"
    by (simp add: sample_defs)
  note unconfigured = required_hub_failure [of sampleSdk "''ghost''" "''NamedOrgNotFound''"]
  note configured = required_hub_failure
    [of "sampleSdk\<lparr>targetDevHub := Some ''ghost''\<rparr>" "''ghost''" "''NamedOrgNotFound''"]
  have 1: "requiredHubFlag_parse sampleSdk None = Inl (createError ''errors.NoDefaultDevHub'' [])"
    and 2: "requiredHubFlag_default sampleSdk = Inl (createError ''errors.NoDefaultDevHub'' [])"
    using unconfigured f by blast+
  have 3: "requiredHubFlag_parse sampleSdk (Some ''ghost'') = Inl (Foreign ''NamedOrgNotFound'')"
    using unconfigured c by blast
  have 4: "requiredHubFlag_parse (sampleSdk\<lparr>targetDevHub := Some ''ghost''\<rparr>) None
      = Inl (Foreign ''NamedOrgNotFound'')"
    and 5: "requiredHubFlag_default (sampleSdk\<lparr>targetDevHub := Some ''ghost''\<rparr>)
      = Inl (Foreign ''NamedOrgNotFound'')"
    using configured nf c' by blast+
  show ?thesis
    using f 1 2 c 3 nf c' 4 5 by blast
qed

text \<open>
  C5. Claimed: for both hub variants, whenever an org handle is resolved but is
  not a dev hub, resolution fails with \<open>errors.NotADevHub\<close> and the error names
  the resolved identifier (the supplied alias/username or, failing that, the
  handle's username). With no input and the configured dev hub \<open>scratch\<close>,
  whose org is not a dev hub, the two variants name different identifiers: the
  required flag names the configured alias, the optional flag names the
  handle's username. No single reading of the claim fits both.
\<close>

theorem hub_variants_name_different_identifiers:
  "orgCreate (sampleSdk\<lparr>targetDevHub := Some ''scratch''\<rparr>) (Some ''scratch'') = Inr scratchOrg \<and>
   getUsername scratchOrg = Some ''dev@scratch.example'' \<and>
   requiredHubFlag_default (sampleSdk\<lparr>targetDevHub := Some ''scratch''\<rparr>)
     = Inl (createError ''errors.NotADevHub'' [Str ''scratch'']) \<and>
   requiredHubFlag_default (sampleSdk\<lparr>targetDevHub := Some ''scratch''\<rparr>)
     \<noteq> Inl (createError ''errors.NotADevHub'' [Str ''dev@scratch.example'']) \<and>
   optionalHubFlag_default (sampleSdk\<lparr>targetDevHub := Some ''scratch''\<rparr>)
     = Inl (createError ''errors.NotADevHub'' [Str ''dev@scratch.example'']) \<and>
   optionalHubFlag_default (sampleSdk\<lparr>targetDevHub := Some ''scratch''\<rparr>)
     \<noteq> Inl (createError ''errors.NotADevHub'' [Str ''scratch''])"
  by (simp add: orgFlags_defs sample_defs falsy_def nullish_def tokenOf_def createError_def)

text \<open>
  C5, as amended. For both hub variants, whenever an org handle is resolved but
  is not a dev hub, resolution fails with \<open>errors.NotADevHub\<close>. The error names
  the explicit input when there is one. Without input, the required flag names
  the configured dev-hub default it resolved, and the optional flag names the
  handle's username (\<^verbatim>\<open>undefined\<close> when the handle has none).
\<close>

theorem not_a_dev_hub_named:
  "(orgCreate s (Some a) = Inr h \<and> \<not> determineIfDevHubOrg h \<longrightarrow>
      requiredHubFlag_parse s (Some a) = Inl (createError ''errors.NotADevHub'' [Str a]) \<and>
      optionalHubFlag_parse s (Some a) = Inl (createError ''errors.NotADevHub'' [Str a])) \<and>
   (targetDevHub s = Some d \<and> d \<noteq> [] \<and> orgCreate s (Some d) = Inr h
      \<and> \<not> determineIfDevHubOrg h \<longrightarrow>
      requiredHubFlag_parse s None = Inl (createError ''errors.NotADevHub'' [Str d]) \<and>
      requiredHubFlag_default s = Inl (createError ''errors.NotADevHub'' [Str d])) \<and>
   (orgCreate s (targetDevHub s) = Inr h \<and> \<not> determineIfDevHubOrg h \<longrightarrow>
      optionalHubFlag_parse s None
        = Inl (createError ''errors.NotADevHub'' [tokenOf (getUsername h)]) \<and>
      optionalHubFlag_default s
        = Inl (createError ''errors.NotADevHub'' [tokenOf (getUsername h)]))"
proof (intro conjI impI)
  assume "orgCreate s (Some a) = Inr h \<and> \<not> determineIfDevHubOrg h"
  then show "requiredHubFlag_parse s (Some a) = Inl (createError ''errors.NotADevHub'' [Str a])"
    by (simp add: requiredHubFlag_parse_def getHubOrThrow_def inputOrDefaultHub_required
        ensureDevHub_def nullish_simps tokenOf_def)
next
  assume "orgCreate s (Some a) = Inr h \<and> \<not> determineIfDevHubOrg h"
  then show "optionalHubFlag_parse s (Some a) = Inl (createError ''errors.NotADevHub'' [Str a])"
    by (simp add: optionalHubFlag_parse_def maybeGetHub_def inputOrDefaultHub_optional
        maybeGetOrg_success ensureDevHub_def nullish_simps tokenOf_def)
next
  assume *: "targetDevHub s = Some d \<and> d \<noteq> [] \<and> orgCreate s (Some d) = Inr h
      \<and> \<not> determineIfDevHubOrg h"
  then show "requiredHubFlag_parse s None = Inl (createError ''errors.NotADevHub'' [Str d])"
    by (simp add: requiredHubFlag_parse_def getHubOrThrow_def inputOrDefaultHub_required
        ensureDevHub_def nullish_simps tokenOf_def falsy_def)
  from * show "requiredHubFlag_default s = Inl (createError ''errors.NotADevHub'' [Str d])"
    by (simp add: requiredHubFlag_default_def getHubOrThrow_def inputOrDefaultHub_required
        ensureDevHub_def nullish_simps tokenOf_def falsy_def)
next
  assume *: "orgCreate s (targetDevHub s) = Inr h \<and> \<not> determineIfDevHubOrg h"
  then show "optionalHubFlag_parse s None
      = Inl (createError ''errors.NotADevHub'' [tokenOf (getUsername h)])"
    by (simp add: optionalHubFlag_parse_def maybeGetHub_def inputOrDefaultHub_optional
        maybeGetOrg_success ensureDevHub_def nullish_simps nullish_def split: option.splits)
  from * show "optionalHubFlag_default s
      = Inl (createError ''errors.NotADevHub'' [tokenOf (getUsername h)])"
    by (simp add: optionalHubFlag_default_def maybeGetHub_def inputOrDefaultHub_optional
        maybeGetOrg_success ensureDevHub_def nullish_simps nullish_def split: option.splits)
qed

theorem not_a_dev_hub_named_witness:
  "orgCreate (sampleSdk\<lparr>targetDevHub := Some ''scratch''\<rparr>) (Some ''scratch'') = Inr scratchOrg \<and>
   \<not> determineIfDevHubOrg scratchOrg \<and>
   targetDevHub (sampleSdk\<lparr>targetDevHub := Some ''scratch''\<rparr>) = Some ''scratch'' \<and>
   ''scratch'' \<noteq> [] \<and>
   requiredHubFlag_parse (sampleSdk\<lparr>targetDevHub := Some ''scratch''\<rparr>) (Some ''scratch'')
     = Inl (createError ''errors.NotADevHub'' [Str ''scratch'']) \<and>
   optionalHubFlag_parse (sampleSdk\<lparr>targetDevHub := Some ''scratch''\<rparr>) (Some ''scratch'')
     = Inl (createError ''errors.NotADevHub'' [Str ''scratch'']) \<and>
   requiredHubFlag_parse (sampleSdk\<lparr>targetDevHub := Some ''scratch''\<rparr>) None
     = Inl (createError ''errors.NotADevHub'' [Str ''scratch'']) \<and>
   requiredHubFlag_default (sampleSdk\<lparr>targetDevHub := Some ''scratch''\<rparr>)
     = Inl (createError ''errors.NotADevHub'' [Str ''scratch'']) \<and>
   optionalHubFlag_parse (sampleSdk\<lparr>targetDevHub := Some ''scratch''\<rparr>) None
     = Inl (createError ''errors.NotADevHub'' [tokenOf (getUsername scratchOrg)]) \<and>
   optionalHubFlag_default (sampleSdk\<lparr>targetDevHub := Some ''scratch''\<rparr>)
     = Inl (createError ''errors.NotADevHub'' [tokenOf (getUsername scratchOrg)]) \<and>
   tokenOf (getUsername scratchOrg) = Str ''dev@scratch.example''"
proof -
  let ?s = "sampleSdk\<lparr>targetDevHub := Some ''scratch''\<rparr>"
  have c: "orgCreate ?s (Some ''scratch'') = Inr scratchOrg"
    by (simp add: sampleSdk_def sampleOrgCreate_def)
  have n: "\<not> determineIfDevHubOrg scratchOrg"
    by (simp add: scratchOrg_def)
  have t: "targetDevHub ?s = Some ''scratch''" and ne: "''scratch'' \<noteq> []"
    by simp_all
  have c': "orgCreate ?s (targetDevHub ?s) = Inr scratchOrg"
    using c t by simp
  have u: "tokenOf (getUsername scratchOrg) = Str ''dev@scratch.example''"
    by (simp add: scratchOrg_def tokenOf_def)
  note named = not_a_dev_hub_named [of ?s "''scratch''" scratchOrg "''scratch''"]
  have 1: "requiredHubFlag_parse ?s (Some ''scratch'')
      = Inl (createError ''errors.NotADevHub'' [Str ''scratch''])"
    and 2: "optionalHubFlag_parse ?s (Some ''scratch'')
      = Inl (createError ''errors.NotADevHub'' [Str ''scratch''])"
    using named c n by blast+
  have 3: "requiredHubFlag_parse ?s None = Inl (createError ''errors.NotADevHub'' [Str ''scratch''])"
    and 4: "requiredHubFlag_default ?s = Inl (createError ''errors.NotADevHub'' [Str ''scratch''])"
    using named t ne c n by blast+
  have 5: "optionalHubFlag_parse ?s None
      = Inl (createError ''errors.NotADevHub'' [tokenOf (getUsername scratchOrg)])"
    and 6: "optionalHubFlag_default ?s
      = Inl (createError ''errors.NotADevHub'' [tokenOf (getUsername scratchOrg)])"
    using named c' n by blast+
  show ?thesis
    using c n t ne 1 2 3 4 5 6 u by blast
qed

text \<open>
  C10. In \<^verbatim>\<open>maybeGetOrg\<close>, which is the \<^verbatim>\<open>parse\<close> of \<^verbatim>\<open>optionalOrgFlag\<close>, an
  empty-string input is treated as an absent one: when session creation fails
  for the empty string the result is \<^verbatim>\<open>undefined\<close> and the failure is not
  thrown again, because the catch branch tests \<^verbatim>\<open>!input\<close>.
\<close>

theorem empty_input_swallowed:
  "orgCreate s (Some []) = Inl e \<Longrightarrow>
     maybeGetOrg s (Some []) = Inr None \<and>
     optionalOrgFlag_parse s (Some []) = Inr None \<and>
     optionalOrgFlag_parse s (Some []) \<noteq> Inl (Foreign e) \<and>
     (orgCreate s None = Inl e' \<longrightarrow>
        optionalOrgFlag_parse s (Some []) = optionalOrgFlag_parse s None)"
  by (simp add: maybeGetOrg_def optionalOrgFlag_parse_def falsy_def)

theorem empty_input_swallowed_witness:
  "orgCreate sampleSdk (Some []) = Inl ''NamedOrgNotFound'' \<and>
   orgCreate sampleSdk None = Inl ''NamedOrgNotFound'' \<and>
   maybeGetOrg sampleSdk (Some []) = Inr None \<and>
   optionalOrgFlag_parse sampleSdk (Some []) = Inr None \<and>
   optionalOrgFlag_parse sampleSdk (Some []) \<noteq> Inl (Foreign ''NamedOrgNotFound'') \<and>
   optionalOrgFlag_parse sampleSdk (Some []) = optionalOrgFlag_parse sampleSdk None"
proof -
  have h: "orgCreate sampleSdk (Some []) = Inl ''NamedOrgNotFound''"
    and h': "orgCreate sampleSdk None = Inl ''NamedOrgNotFound''"
    by (simp_all add: sample_defs)
  show ?thesis
    using h h' empty_input_swallowed [OF h, of "''NamedOrgNotFound''"] by blast
qed

section \<open>Properties of the API version flag\<close>

lemmas version_defs =
  validate_def numLess_def numLessEq_def minValidApiVersion_def maxDeprecated_def
  emitWarning_def getMessage_def

lemmas parseInt_defs =
  parseInt_def isWhiteSpace_def isDigit_def digitValue_def

text \<open>
  \<^verbatim>\<open>validate\<close> never reads the sink: its outcome does not depend on the warnings
  emitted before, and it only appends to them.
\<close>

lemma validate_appends:
  "validate s v l = (fst (validate s v []), l @ snd (validate s v []))"
  by (simp add: validate_def emitWarning_def Let_def)

text \<open>
  C6. For every well-formed API version string whose numeric value is below the
  minimum supported version (21), the parse of the flag fails with
  \<open>errors.RetiredApiVersion\<close>, and the error carries 21 as its message parameter.
  No warning is emitted.
\<close>

theorem retired_version_rejected:
  "validateApiVersion s input \<Longrightarrow> parseInt input = Some n \<Longrightarrow> n < 21 \<Longrightarrow>
     minValidApiVersion = 21 \<and>
     orgApiVersionFlag_parse s input l
       = (Inl (createError ''errors.RetiredApiVersion'' [Num 21]), l)"
  by (simp add: orgApiVersionFlag_parse_def validate_def numLess_def minValidApiVersion_def)

theorem retired_version_rejected_witness:
  "validateApiVersion sampleSdk ''10.0'' \<and> parseInt ''10.0'' = Some 10 \<and> (10 :: int) < 21 \<and>
   orgApiVersionFlag_parse sampleSdk ''10.0'' []
     = (Inl (createError ''errors.RetiredApiVersion'' [Num 21]), [])"
proof -
  have v: "validateApiVersion sampleSdk ''10.0''"
    by (simp add: sampleSdk_def sampleValidateApiVersion_def)
  have p: "parseInt ''10.0'' = Some 10"
    by (simp add: parseInt_defs)
  have b: "(10 :: int) < 21"
    by simp
  show ?thesis
    using v p b retired_version_rejected [OF v p b, of "[]"] by blast
qed

text \<open>
  C7. For every input string that fails the format check, the parse of the flag
  fails with \<open>errors.InvalidApiVersion\<close> carrying the input as message parameter,
  and it does so before any range check: whatever number the input would read
  as, the error is not \<open>errors.RetiredApiVersion\<close> and no deprecation warning
  is emitted.
\<close>

theorem malformed_version_rejected:
  "\<not> validateApiVersion s input \<Longrightarrow>
     orgApiVersionFlag_parse s input l
       = (Inl (createError ''errors.InvalidApiVersion'' [Str input]), l) \<and>
     fst (orgApiVersionFlag_parse s input l)
       \<noteq> Inl (createError ''errors.RetiredApiVersion'' [Num minValidApiVersion]) \<and>
     snd (orgApiVersionFlag_parse s input l) = l"
  by (simp add: orgApiVersionFlag_parse_def validate_def createError_def)

theorem malformed_version_rejected_witness:
  "\<not> validateApiVersion sampleSdk ''abc'' \<and>
   orgApiVersionFlag_parse sampleSdk ''abc'' []
     = (Inl (createError ''errors.InvalidApiVersion'' [Str ''abc'']), []) \<and>
   \<not> validateApiVersion sampleSdk ''5.0'' \<and> parseInt ''5.0'' = Some 5 \<and>
   orgApiVersionFlag_parse sampleSdk ''5.0'' []
     = (Inl (createError ''errors.InvalidApiVersion'' [Str ''5.0'']), [])"
proof -
  have v: "\<not> validateApiVersion sampleSdk ''abc''"
    and v': "\<not> validateApiVersion sampleSdk ''5.0''"
    by (simp_all add: sampleSdk_def sampleValidateApiVersion_def)
  have p: "parseInt ''5.0'' = Some 5"
    by (simp add: parseInt_defs)
  show ?thesis
    using v v' p
      malformed_version_rejected [OF v, of "[]"]
      malformed_version_rejected [OF v', of "[]"]
    by blast
qed

text \<open>
  C8. For every well-formed API version string whose numeric value is at least
  the minimum (21) and at most the deprecation threshold (30), parse succeeds,
  returns the input unchanged and emits the deprecation warning exactly once,
  with the threshold 30 and the fixed URL as parameters; for values above 30 it
  succeeds with no warning.
\<close>

theorem deprecated_version_warns:
  "(validateApiVersion s input \<and> parseInt input = Some n \<and> 21 \<le> n \<and> n \<le> 30 \<longrightarrow>
      orgApiVersionFlag_parse s input l
        = (Inr input,
           l @ [getMessage ''flags.apiVersion.warning.deprecated''
                  [Num 30, Str ''https://help.salesforce.com/s/articleView?id=000354473&type=1;'']])) \<and>
   (validateApiVersion s input \<and> parseInt input = Some n \<and> 30 < n \<longrightarrow>
      orgApiVersionFlag_parse s input l = (Inr input, l))"
  by (simp add: orgApiVersionFlag_parse_def version_defs maxDeprecatedUrl_def)

theorem deprecated_version_warns_witness:
  "validateApiVersion sampleSdk ''25.0'' \<and> parseInt ''25.0'' = Some 25 \<and>
   (21 :: int) \<le> 25 \<and> (25 :: int) \<le> 30 \<and>
   orgApiVersionFlag_parse sampleSdk ''25.0'' []
     = (Inr ''25.0'',
        [getMessage ''flags.apiVersion.warning.deprecated''
           [Num 30, Str ''https://help.salesforce.com/s/articleView?id=000354473&type=1;'']]) \<and>
   validateApiVersion sampleSdk ''45.0'' \<and> parseInt ''45.0'' = Some 45 \<and> (30 :: int) < 45 \<and>
   orgApiVersionFlag_parse sampleSdk ''45.0'' [] = (Inr ''45.0'', [])"
proof -
  have v: "validateApiVersion sampleSdk ''25.0''"
    and v': "validateApiVersion sampleSdk ''45.0''"
    by (simp_all add: sampleSdk_def sampleValidateApiVersion_def)
  have p: "parseInt ''25.0'' = Some 25" and p': "parseInt ''45.0'' = Some 45"
    by (simp_all add: parseInt_defs)
  have b: "(21 :: int) \<le> 25" "(25 :: int) \<le> 30" "(30 :: int) < 45"
    by simp_all
  have 1: "orgApiVersionFlag_parse sampleSdk ''25.0'' []
     = (Inr ''25.0'',
        [] @ [getMessage ''flags.apiVersion.warning.deprecated''
           [Num 30, Str ''https://help.salesforce.com/s/articleView?id=000354473&type=1;'']])"
    using deprecated_version_warns [of sampleSdk "''25.0''" 25 "[]"] v p b by blast
  have 2: "orgApiVersionFlag_parse sampleSdk ''45.0'' [] = (Inr ''45.0'', [])"
    using deprecated_version_warns [of sampleSdk "''45.0''" 45 "[]"] v' p' b by blast
  show ?thesis
    using v p b v' p' 1 2 by simp
qed

text \<open>
  C9. The default of the flag returns \<^verbatim>\<open>undefined\<close> when no API-version default
  is configured (the configured value is absent or empty) and emits nothing;
  when one is configured, it emits the override warning and then runs the
  configured value through exactly the validation of parse, returning the
  validated value or failing as parse would. So the outcome is the outcome of
  parse on the configured value, and the warnings are the override warning
  followed by those of parse.
\<close>

theorem default_from_config:
  "(falsy (orgApiVersion s) \<longrightarrow> orgApiVersionFlag_default s l = (Inr None, l)) \<and>
   (orgApiVersion s = Some v \<and> v \<noteq> [] \<longrightarrow>
      orgApiVersionFlag_default s l =
        (case orgApiVersionFlag_parse s v
                (l @ [getMessage ''flags.apiVersion.overrideWarning'' [Str v]]) of
           (Inl e, l') \<Rightarrow> (Inl e, l')
         | (Inr r, l') \<Rightarrow> (Inr (Some r), l')) \<and>
      fst (orgApiVersionFlag_default s l) =
        (case fst (orgApiVersionFlag_parse s v l) of Inl e \<Rightarrow> Inl e | Inr r \<Rightarrow> Inr (Some r)) \<and>
      snd (orgApiVersionFlag_default s l) =
        l @ getMessage ''flags.apiVersion.overrideWarning'' [Str v]
          # snd (orgApiVersionFlag_parse s v []))"
proof (intro conjI impI)
  assume "falsy (orgApiVersion s)"
  then show "orgApiVersionFlag_default s l = (Inr None, l)"
    by (simp add: orgApiVersionFlag_default_def getDefaultFromConfig_def falsy_def
        split: option.splits)
next
  assume cfg: "orgApiVersion s = Some v \<and> v \<noteq> []"
  let ?w = "getMessage ''flags.apiVersion.overrideWarning'' [Str v]"
  have d: "orgApiVersionFlag_default s l =
      (case validate s v (l @ [?w]) of
         (Inl e, l') \<Rightarrow> (Inl e, l') | (Inr r, l') \<Rightarrow> (Inr (Some r), l'))"
    using cfg by (simp add: orgApiVersionFlag_default_def getDefaultFromConfig_def emitWarning_def)
  show "orgApiVersionFlag_default s l =
        (case orgApiVersionFlag_parse s v (l @ [?w]) of
           (Inl e, l') \<Rightarrow> (Inl e, l')
         | (Inr r, l') \<Rightarrow> (Inr (Some r), l'))"
    using d by (simp add: orgApiVersionFlag_parse_def)
  have a: "validate s v (l @ [?w]) = (fst (validate s v []), (l @ [?w]) @ snd (validate s v []))"
    by (rule validate_appends)
  have b: "fst (validate s v l) = fst (validate s v [])"
    using validate_appends [of s v l] by (metis fst_conv)
  show "fst (orgApiVersionFlag_default s l) =
        (case fst (orgApiVersionFlag_parse s v l) of Inl e \<Rightarrow> Inl e | Inr r \<Rightarrow> Inr (Some r))"
    unfolding d a orgApiVersionFlag_parse_def b
    by (simp split: sum.splits)
  show "snd (orgApiVersionFlag_default s l) = l @ ?w # snd (orgApiVersionFlag_parse s v [])"
    unfolding d a orgApiVersionFlag_parse_def
    by (simp split: sum.splits)
qed

theorem default_from_config_witness:
  "falsy (orgApiVersion sampleSdk) \<and>
   orgApiVersionFlag_default sampleSdk [] = (Inr None, []) \<and>
   orgApiVersion (sampleSdk\<lparr>orgApiVersion := Some ''25.0''\<rparr>) = Some ''25.0'' \<and>
   ''25.0'' \<noteq> [] \<and>
   orgApiVersionFlag_default (sampleSdk\<lparr>orgApiVersion := Some ''25.0''\<rparr>) []
     = (Inr (Some ''25.0''),
        [getMessage ''flags.apiVersion.overrideWarning'' [Str ''25.0''],
         getMessage ''flags.apiVersion.warning.deprecated''
           [Num 30, Str ''https://help.salesforce.com/s/articleView?id=000354473&type=1;'']])"
proof -
  let ?s = "sampleSdk\<lparr>orgApiVersion := Some ''25.0''\<rparr>"
  have f: "falsy (orgApiVersion sampleSdk)"
    by (simp add: sampleSdk_def falsy_def)
  have c: "orgApiVersion ?s = Some ''25.0''" and ne: "''25.0'' \<noteq> []"
    by simp_all
  have 1: "orgApiVersionFlag_default sampleSdk [] = (Inr None, [])"
    using default_from_config [of sampleSdk "[]" "''25.0''"] f by blast
  have p: "parseInt ''25.0'' = Some 25"
    by (simp add: parseInt_defs)
  have q: "orgApiVersionFlag_parse ?s ''25.0''
        ([] @ [getMessage ''flags.apiVersion.overrideWarning'' [Str ''25.0'']])
     = (Inr ''25.0'',
        [getMessage ''flags.apiVersion.overrideWarning'' [Str ''25.0''],
         getMessage ''flags.apiVersion.warning.deprecated''
           [Num 30, Str ''https://help.salesforce.com/s/articleView?id=000354473&type=1;'']])"
    by (simp add: orgApiVersionFlag_parse_def validate_def p numLess_def numLessEq_def
        minValidApiVersion_def maxDeprecated_def maxDeprecatedUrl_def emitWarning_def
        sampleSdk_def sampleValidateApiVersion_def)
  have 2: "orgApiVersionFlag_default ?s [] =
        (case orgApiVersionFlag_parse ?s ''25.0''
                ([] @ [getMessage ''flags.apiVersion.overrideWarning'' [Str ''25.0'']]) of
           (Inl e, l') \<Rightarrow> (Inl e, l')
         | (Inr r, l') \<Rightarrow> (Inr (Some r), l'))"
    using default_from_config [of ?s "[]" "''25.0''"] c ne by blast
  have 3: "orgApiVersionFlag_default ?s []
     = (Inr (Some ''25.0''),
        [getMessage ''flags.apiVersion.overrideWarning'' [Str ''25.0''],
         getMessage ''flags.apiVersion.warning.deprecated''
           [Num 30, Str ''https://help.salesforce.com/s/articleView?id=000354473&type=1;'']])"
    unfolding 2 q by simp
  show ?thesis
    using f 1 c ne 3 by blast
qed

end
